theory Spec2Isabelle
  imports Main "HOL-Library.AList"
begin

section \<open>Python string operations used by the cart code\<close>

text \<open>
  A Python \<open>str\<close> is a sequence of code points. A \<open>char\<close> stands for one code point
  below 256, so \<open>length\<close> counts code points as Python's \<open>len\<close> does. On this range
  \<open>str.lower\<close> maps the letters A..Z and the Latin-1 capitals (192..222 without the
  multiplication sign 215) to the code point 32 above, and \<open>str.strip\<close>, \<open>str.isspace\<close>
  treat 9..13, 28..32, 133 and 160 as whitespace.
\<close>

definition py_isupper :: "char \<Rightarrow> bool" where
  "py_isupper c = (let n = (of_char c :: nat) in
     (65 \<le> n \<and> n \<le> 90) \<or> (192 \<le> n \<and> n \<le> 222 \<and> n \<noteq> 215))"

definition py_lower_char :: "char \<Rightarrow> char" where
  "py_lower_char c = (if py_isupper c then char_of (of_char c + (32::nat)) else c)"

definition py_lower :: "string \<Rightarrow> string" where
  "py_lower s = map py_lower_char s"

definition py_isspace :: "char \<Rightarrow> bool" where
  "py_isspace c = (let n = (of_char c :: nat) in
     (9 \<le> n \<and> n \<le> 13) \<or> (28 \<le> n \<and> n \<le> 32) \<or> n = 133 \<or> n = 160)"

text \<open>\<open>s.strip()\<close>: whitespace dropped at both ends.\<close>

definition py_strip :: "string \<Rightarrow> string" where
  "py_strip s = rev (dropWhile py_isspace (rev (dropWhile py_isspace s)))"

text \<open>\<open>s.rstrip("s")\<close>: every trailing \<open>s\<close> dropped.\<close>

definition py_rstrip_s :: "string \<Rightarrow> string" where
  "py_rstrip_s s = rev (dropWhile (\<lambda>c. c = CHR ''s'') (rev s))"

text \<open>\<open>s.endswith('s')\<close>.\<close>

definition py_endswith_s :: "string \<Rightarrow> bool" where
  "py_endswith_s s = (case rev s of [] \<Rightarrow> False | c # _ \<Rightarrow> c = CHR ''s'')"

text \<open>\<open>str(n)\<close> for an integer, as the f-strings of the messages format it.\<close>

fun str_nat :: "nat \<Rightarrow> string" where
  "str_nat n = (if n < 10 then [char_of (48 + n)]
                else str_nat (n div 10) @ [char_of (48 + n mod 10)])"

declare str_nat.simps [simp del]

definition str_int :: "int \<Rightarrow> string" where
  "str_int i = (if i < 0 then CHR ''-'' # str_nat (nat (- i)) else str_nat (nat i))"


section \<open>The cart API (dummy\_frontend\_api.py)\<close>

record CartItemRequest =
  item_name :: string
  quantity :: int
  action :: string

record CartResponse =
  success :: bool
  message :: string
  cart_items :: "(string \<times> int) list"
  total_items :: int

datatype HTTPException = HTTPException (status_code: int) (detail: string)

text \<open>
  \<open>cart_storage\<close> is a Python dict, which keeps insertion order: an association list
  whose keys are distinct. \<open>d[k] = v\<close> is \<open>AList.update\<close> (in place when the key is
  there, appended otherwise), \<open>del d[k]\<close> is \<open>AList.delete\<close>, \<open>k in d\<close> and \<open>d[k]\<close>
  are \<open>map_of\<close>, \<open>d.items()\<close> is the list itself.
\<close>

type_synonym cart_storage = "(string \<times> int) list"

text \<open>
  Each endpoint takes the global dict and returns it, after the call, beside its answer:
  \<open>Inl\<close> is the raised HTTPException (status 400), \<open>Inr\<close> the body of a 200 answer.
  The handlers' \<open>except Exception\<close> (status 500) has no branch: nothing in the bodies
  below raises.
\<close>

definition add_to_cart ::
  "CartItemRequest \<Rightarrow> cart_storage \<Rightarrow> (HTTPException + CartResponse) \<times> cart_storage" where
  "add_to_cart request cart =
     (if quantity request \<le> 0
      then (Inl (HTTPException 400 ''Quantity must be positive''), cart)
      else
        let name = py_strip (py_lower (item_name request));
            cart' = (case map_of cart name of
                       Some v \<Rightarrow> AList.update name (v + quantity request) cart
                     | None \<Rightarrow> AList.update name (quantity request) cart)
        in (Inr \<lparr>success = True,
                 message = ''Successfully added '' @ str_int (quantity request) @ '' ''
                           @ item_name request @ '' to cart'',
                 cart_items = cart',
                 total_items = sum_list (map snd cart')\<rparr>,
            cart'))"

definition remove_from_cart ::
  "CartItemRequest \<Rightarrow> cart_storage \<Rightarrow> (HTTPException + CartResponse) \<times> cart_storage" where
  "remove_from_cart request cart =
     (if quantity request \<le> 0
      then (Inl (HTTPException 400 ''Quantity must be positive''), cart)
      else
        let name = py_strip (py_lower (item_name request)) in
        case map_of cart name of
          None \<Rightarrow>
            (Inr \<lparr>success = False,
                  message = item_name request @ '' is not in your cart'',
                  cart_items = cart,
                  total_items = sum_list (map snd cart)\<rparr>,
             cart)
        | Some stored \<Rightarrow>
            let (cart', msg) =
                  (if stored \<le> quantity request
                   then (AList.delete name cart,
                         ''Removed all '' @ str_int stored @ '' '' @ item_name request
                         @ '' from cart'')
                   else (AList.update name (stored - quantity request) cart,
                         ''Removed '' @ str_int (quantity request) @ '' '' @ item_name request
                         @ '' from cart''))
            in (Inr \<lparr>success = True,
                     message = msg,
                     cart_items = cart',
                     total_items = sum_list (map snd cart')\<rparr>,
                cart'))"

definition view_cart :: "cart_storage \<Rightarrow> CartResponse" where
  "view_cart cart =
     \<lparr>success = True,
      message = ''Cart contains '' @ str_int (sum_list (map snd cart)) @ '' items'',
      cart_items = cart,
      total_items = sum_list (map snd cart)\<rparr>"

text \<open>\<open>items_cleared = len(cart_storage)\<close> is reported in the message only.\<close>

definition items_cleared :: "cart_storage \<Rightarrow> int" where
  "items_cleared cart = int (length cart)"

definition clear_cart :: "cart_storage \<Rightarrow> CartResponse \<times> cart_storage" where
  "clear_cart cart =
     (\<lparr>success = True,
       message = ''Cart cleared successfully. Removed '' @ str_int (items_cleared cart)
                 @ '' item types.'',
       cart_items = [],
       total_items = 0\<rparr>,
      [])"

text \<open>A run of the server: any sequence of calls to the four endpoints.\<close>

datatype api_call =
  CallAdd CartItemRequest | CallRemove CartItemRequest | CallView | CallClear

fun api_step :: "cart_storage \<Rightarrow> api_call \<Rightarrow> cart_storage" where
  "api_step cart (CallAdd request) = snd (add_to_cart request cart)"
| "api_step cart (CallRemove request) = snd (remove_from_cart request cart)"
| "api_step cart CallView = cart"
| "api_step cart CallClear = snd (clear_cart cart)"

definition api_run :: "api_call list \<Rightarrow> cart_storage" where
  "api_run calls = foldl api_step [] calls"


section \<open>The client of the API (voice\_agent\_working.py)\<close>

text \<open>
  What the two client functions return: the JSON body of a 200 answer, or the dict
  \<open>{"success": False, "message": m}\<close> they build themselves. The transport is taken to
  deliver every request and answer, so their \<open>except Exception\<close> has no branch.
\<close>

datatype api_result = Json CartResponse | ErrorResult string

fun result_success :: "api_result \<Rightarrow> bool" where
  "result_success (Json r) = success r"
| "result_success (ErrorResult m) = False"

text \<open>The normalisation at the head of \<open>grocery_api_add_item\<close>.\<close>

definition final_name :: "string \<Rightarrow> string" where
  "final_name name =
     (let normalized_name = py_strip (py_lower name) in
      if py_endswith_s normalized_name \<and> length normalized_name > 1
      then normalized_name
      else (if \<not> py_endswith_s normalized_name then normalized_name @ ''s''
            else normalized_name))"

definition grocery_api_add_item ::
  "string \<Rightarrow> int \<Rightarrow> cart_storage \<Rightarrow> api_result \<times> cart_storage" where
  "grocery_api_add_item name q cart =
     (case add_to_cart \<lparr>item_name = final_name name, quantity = q, action = ''add''\<rparr> cart of
        (Inr result, cart') \<Rightarrow> (Json result, cart')
      | (Inl e, cart') \<Rightarrow>
          (ErrorResult (''Failed to add '' @ name @ '' to cart. Status: ''
                        @ str_int (status_code e)), cart'))"

text \<open>The four matching patterns of the smart matching, on two prepared names.\<close>

definition name_matches :: "string \<Rightarrow> string \<Rightarrow> bool" where
  "name_matches item_lower cart_item_name =
     (item_lower = cart_item_name \<or>
      item_lower @ ''s'' = cart_item_name \<or>
      item_lower = cart_item_name @ ''s'' \<or>
      py_rstrip_s item_lower = py_rstrip_s cart_item_name)"

text \<open>
  The \<open>for cart_item in cart_items\<close> loop: at the first entry that matches, the remove
  endpoint is called again with the stored name, and a 200 answer is returned whatever
  its \<open>success\<close>; any other status goes on with the next entry. \<open>None\<close>: the loop ended.
\<close>

fun smart_matching ::
  "string \<Rightarrow> int \<Rightarrow> (string \<times> int) list \<Rightarrow> cart_storage \<Rightarrow> (api_result \<times> cart_storage) option"
  where
  "smart_matching item_lower q [] cart = None"
| "smart_matching item_lower q ((item, qty) # rest) cart =
     (if name_matches item_lower (py_strip (py_lower item))
      then (case remove_from_cart \<lparr>item_name = item, quantity = q, action = ''remove''\<rparr> cart of
              (Inr retry_result, cart') \<Rightarrow> Some (Json retry_result, cart')
            | (Inl e, cart') \<Rightarrow> smart_matching item_lower q rest cart')
      else smart_matching item_lower q rest cart)"

definition grocery_api_remove_item ::
  "string \<Rightarrow> int \<Rightarrow> cart_storage \<Rightarrow> api_result \<times> cart_storage" where
  "grocery_api_remove_item name q cart =
     (case remove_from_cart \<lparr>item_name = name, quantity = q, action = ''remove''\<rparr> cart of
        (Inr result, cart1) \<Rightarrow>
          (if success result then (Json result, cart1)
           else (case smart_matching (py_strip (py_lower name)) q
                        (cart_items (view_cart cart1)) cart1 of
                   Some matched \<Rightarrow> matched
                 | None \<Rightarrow> (Json result, cart1)))
      | (Inl e, cart1) \<Rightarrow>
          (ErrorResult (''Failed to remove '' @ name @ '' from cart. Status: ''
                        @ str_int (status_code e)), cart1))"

text \<open>
  The two tools of \<open>GroceryAgent\<close>. The manual validation raises ValueError, which the
  tool's own \<open>except Exception\<close> turns into the spoken error text; no request is sent.
\<close>

datatype ValueError = ValueError string

text \<open>\<open>CartItem(quantity, item_name)\<close> of the client is the pair of its two fields.\<close>

type_synonym CartItem = "int \<times> string"

definition validate_cart_item :: "int \<Rightarrow> string \<Rightarrow> ValueError + CartItem" where
  "validate_cart_item q name =
     (if q < 1 then Inl (ValueError ''Quantity must be positive'')
      else if name = [] \<or> length (py_strip name) = 0
           then Inl (ValueError ''Item name cannot be empty'')
      else Inr (q, py_strip name))"

definition GroceryAgent_add_to_cart ::
  "int \<Rightarrow> string \<Rightarrow> cart_storage \<Rightarrow> string \<times> cart_storage" where
  "GroceryAgent_add_to_cart q name cart =
     (case validate_cart_item q name of
        Inl (ValueError e) \<Rightarrow>
          (''Sorry, there was an error processing your request: '' @ e, cart)
      | Inr (cart_quantity, cart_name) \<Rightarrow>
          (case grocery_api_add_item cart_name cart_quantity cart of
             (result, cart') \<Rightarrow>
               (if result_success result
                then ''Perfect! I've successfully added '' @ str_int cart_quantity
                     @ '' '' @ cart_name
                     @ '' to your cart. Is there anything else you'd like to add?''
                else ''I'm sorry, I couldn't add '' @ cart_name
                     @ '' to your cart. Please try again.'',
                cart')))"

definition GroceryAgent_remove_from_cart ::
  "int \<Rightarrow> string \<Rightarrow> cart_storage \<Rightarrow> string \<times> cart_storage" where
  "GroceryAgent_remove_from_cart q name cart =
     (case validate_cart_item q name of
        Inl (ValueError e) \<Rightarrow>
          (''Sorry, there was an error processing your request: '' @ e, cart)
      | Inr (cart_quantity, cart_name) \<Rightarrow>
          (case grocery_api_remove_item cart_name cart_quantity cart of
             (result, cart') \<Rightarrow>
               (if result_success result
                then ''Done! I've successfully removed '' @ str_int cart_quantity
                     @ '' '' @ cart_name
                     @ '' from your cart. Anything else you'd like me to help with?''
                else ''I'm sorry, I couldn't remove '' @ cart_name
                     @ '' from your cart. Please try again.'',
                cart')))"


section \<open>Notions used by the properties\<close>

text \<open>A string that \<open>strip\<close> leaves alone: no whitespace at either end.\<close>

definition stripped :: "string \<Rightarrow> bool" where
  "stripped s = (s = [] \<or> (\<not> py_isspace (hd s) \<and> \<not> py_isspace (last s)))"

text \<open>
  The invariant of the stored keys: each is what the endpoints' \<open>lower().strip()\<close>
  returns for it.
\<close>

definition keys_normalized :: "cart_storage \<Rightarrow> bool" where
  "keys_normalized cart = (\<forall>k \<in> fst ` set cart. py_strip (py_lower k) = k)"


section \<open>Auxiliary facts\<close>

subsection \<open>Characters\<close>

lemma of_char_shift:
  "(of_char c :: nat) \<le> 222 \<Longrightarrow> (of_char (char_of (of_char c + (32::nat))) :: nat) = of_char c + 32"
  by (simp add: of_char_of)

lemma py_lower_char_idem: "py_lower_char (py_lower_char c) = py_lower_char c"
  by (auto simp: py_lower_char_def py_isupper_def Let_def of_char_shift)

lemma py_isspace_lower_char: "py_isspace (py_lower_char c) = py_isspace c"
  by (auto simp: py_lower_char_def py_isupper_def py_isspace_def Let_def of_char_shift)

lemma py_lower_char_s: "py_lower_char CHR ''s'' = CHR ''s''"
  by (simp add: py_lower_char_def py_isupper_def)

lemma not_isspace_s: "\<not> py_isspace CHR ''s''"
  by (simp add: py_isspace_def)

subsection \<open>lower and strip\<close>

lemma py_lower_idem: "py_lower (py_lower s) = py_lower s"
  by (simp add: py_lower_def py_lower_char_idem)

lemma py_lower_append: "py_lower (s @ t) = py_lower s @ py_lower t"
  by (simp add: py_lower_def)

lemma py_isspace_comp_lower: "py_isspace \<circ> py_lower_char = py_isspace"
  by (rule ext) (simp add: py_isspace_lower_char)

lemma py_lower_strip: "py_lower (py_strip s) = py_strip (py_lower s)"
  by (simp add: py_lower_def py_strip_def rev_map dropWhile_map py_isspace_comp_lower)


lemma dropWhile_hd_id: "xs \<noteq> [] \<Longrightarrow> \<not> P (hd xs) \<Longrightarrow> dropWhile P xs = xs"
  by (cases xs) auto

lemma last_dropWhile_keep: "dropWhile P xs \<noteq> [] \<Longrightarrow> last (dropWhile P xs) = last xs"
  by (induction xs) auto

lemma py_strip_stripped: "stripped s \<Longrightarrow> py_strip s = s"
proof (cases "s = []")
  case True
  then show ?thesis by (simp add: py_strip_def)
next
  case False
  assume "stripped s"
  with False have h: "\<not> py_isspace (hd s)" and l: "\<not> py_isspace (last s)"
    by (simp_all add: stripped_def)
  from False h have "dropWhile py_isspace s = s" by (rule dropWhile_hd_id)
  moreover from False l have "dropWhile py_isspace (rev s) = rev s"
    by (intro dropWhile_hd_id) (simp_all add: hd_rev)
  ultimately show ?thesis by (simp add: py_strip_def)
qed

lemma stripped_py_strip: "stripped (py_strip s)"
proof -
  define t where "t = dropWhile py_isspace s"
  define u where "u = dropWhile py_isspace (rev t)"
  have r: "py_strip s = rev u" by (simp add: py_strip_def t_def u_def)
  show ?thesis
  proof (cases "u = []")
    case True
    with r show ?thesis by (simp add: stripped_def)
  next
    case False
    then have "\<not> py_isspace (hd u)" unfolding u_def by (rule hd_dropWhile)
    then have l: "\<not> py_isspace (last (rev u))" using False by (simp add: last_rev)
    from False have "last u = last (rev t)" unfolding u_def by (rule last_dropWhile_keep)
    moreover from False have tne: "t \<noteq> []" by (auto simp: u_def)
    ultimately have "hd (rev u) = hd t" using False by (simp add: hd_rev last_rev)
    moreover from tne have "\<not> py_isspace (hd t)" unfolding t_def by (rule hd_dropWhile)
    ultimately show ?thesis using r l by (simp add: stripped_def)
  qed
qed

lemma py_strip_idem: "py_strip (py_strip s) = py_strip s"
  by (rule py_strip_stripped) (rule stripped_py_strip)

lemma stripped_snoc: "stripped s \<Longrightarrow> \<not> py_isspace c \<Longrightarrow> stripped (s @ [c])"
  by (cases s) (auto simp: stripped_def)

text \<open>The key the endpoints compute is a fixed point of their normalisation.\<close>

lemma api_key_idem:
  "py_strip (py_lower (py_strip (py_lower s))) = py_strip (py_lower s)"
  by (simp add: py_lower_strip py_lower_idem py_strip_idem)

lemma py_lower_api_key: "py_lower (py_strip (py_lower s)) = py_strip (py_lower s)"
  by (simp add: py_lower_strip py_lower_idem)

subsection \<open>The add-path normaliser\<close>

lemma py_endswith_s_snoc: "py_endswith_s (s @ ''s'')"
  by (simp add: py_endswith_s_def)

lemma final_name_cases:
  "final_name name =
     (if py_endswith_s (py_strip (py_lower name)) then py_strip (py_lower name)
      else py_strip (py_lower name) @ ''s'')"
  by (simp add: final_name_def Let_def)

lemma final_name_endswith: "py_endswith_s (final_name name)"
  by (simp add: final_name_cases py_endswith_s_snoc)

lemma final_name_key: "py_strip (py_lower (final_name name)) = final_name name"
proof -
  let ?n = "py_strip (py_lower name)"
  have "stripped (final_name name)"
    by (simp add: final_name_cases stripped_py_strip stripped_snoc not_isspace_s)
  moreover have "py_lower (final_name name) = final_name name"
    by (simp add: final_name_cases py_lower_append py_lower_api_key)
       (simp add: py_lower_def py_lower_char_s)
  ultimately show ?thesis by (simp add: py_strip_stripped)
qed

subsection \<open>The endpoints, case by case\<close>

lemma add_rejected:
  "quantity request \<le> 0 \<Longrightarrow>
   add_to_cart request cart = (Inl (HTTPException 400 ''Quantity must be positive''), cart)"
  by (simp add: add_to_cart_def)

lemma remove_rejected:
  "quantity request \<le> 0 \<Longrightarrow>
   remove_from_cart request cart = (Inl (HTTPException 400 ''Quantity must be positive''), cart)"
  by (simp add: remove_from_cart_def)

lemma add_cart:
  "0 < quantity request \<Longrightarrow>
   snd (add_to_cart request cart) =
     AList.update (py_strip (py_lower (item_name request)))
       ((case map_of cart (py_strip (py_lower (item_name request))) of
           None \<Rightarrow> 0 | Some v \<Rightarrow> v) + quantity request) cart"
  by (simp add: add_to_cart_def Let_def split: option.split)

lemma add_succeeds:
  "0 < quantity request \<Longrightarrow>
   \<exists>r. fst (add_to_cart request cart) = Inr r \<and> success r \<and>
       cart_items r = snd (add_to_cart request cart)"
  by (simp add: add_to_cart_def Let_def)

lemma remove_not_found:
  "0 < quantity request \<Longrightarrow> map_of cart (py_strip (py_lower (item_name request))) = None \<Longrightarrow>
   remove_from_cart request cart =
     (Inr \<lparr>success = False, message = item_name request @ '' is not in your cart'',
           cart_items = cart, total_items = sum_list (map snd cart)\<rparr>, cart)"
  by (simp add: remove_from_cart_def Let_def)

lemma remove_found:
  "0 < quantity request \<Longrightarrow>
   map_of cart (py_strip (py_lower (item_name request))) = Some stored \<Longrightarrow>
   remove_from_cart request cart =
     (if stored \<le> quantity request
      then (Inr \<lparr>success = True,
                 message = ''Removed all '' @ str_int stored @ '' '' @ item_name request
                           @ '' from cart'',
                 cart_items = AList.delete (py_strip (py_lower (item_name request))) cart,
                 total_items = sum_list (map snd
                   (AList.delete (py_strip (py_lower (item_name request))) cart))\<rparr>,
            AList.delete (py_strip (py_lower (item_name request))) cart)
      else (Inr \<lparr>success = True,
                 message = ''Removed '' @ str_int (quantity request) @ '' '' @ item_name request
                           @ '' from cart'',
                 cart_items = AList.update (py_strip (py_lower (item_name request)))
                                (stored - quantity request) cart,
                 total_items = sum_list (map snd
                   (AList.update (py_strip (py_lower (item_name request)))
                      (stored - quantity request) cart))\<rparr>,
            AList.update (py_strip (py_lower (item_name request)))
              (stored - quantity request) cart))"
  by (simp add: remove_from_cart_def Let_def)

lemma remove_success_iff:
  "(\<exists>r. fst (remove_from_cart request cart) = Inr r \<and> success r) \<longleftrightarrow>
   0 < quantity request \<and> py_strip (py_lower (item_name request)) \<in> fst ` set cart"
proof (cases "0 < quantity request")
  case False
  then show ?thesis by (simp add: remove_rejected)
next
  case True
  show ?thesis
  proof (cases "map_of cart (py_strip (py_lower (item_name request)))")
    case None
    with True show ?thesis
      by (simp add: remove_not_found map_of_eq_None_iff)
  next
    case (Some stored)
    then have "py_strip (py_lower (item_name request)) \<in> fst ` set cart"
      by (metis map_of_eq_None_iff option.distinct(1))
    with True Some show ?thesis by (simp add: remove_found)
  qed
qed

subsection \<open>Keys of the cart\<close>

lemma keys_update: "fst ` set (AList.update k v al) = insert k (fst ` set al)"
  by (induction al) auto

lemma keys_delete: "fst ` set (AList.delete k al) = fst ` set al - {k}"
  by (induction al) auto

lemma add_keys:
  "0 < quantity request \<Longrightarrow>
   fst ` set (snd (add_to_cart request cart)) =
     insert (py_strip (py_lower (item_name request))) (fst ` set cart)"
  by (simp add: add_cart keys_update)

lemma add_keys_subset:
  "fst ` set (snd (add_to_cart request cart)) \<subseteq>
     insert (py_strip (py_lower (item_name request))) (fst ` set cart)"
  by (cases "0 < quantity request") (simp_all add: add_keys add_rejected subset_insertI)

lemma remove_keys_subset:
  "fst ` set (snd (remove_from_cart request cart)) \<subseteq> fst ` set cart"
proof (cases "0 < quantity request")
  case False
  then show ?thesis by (simp add: remove_rejected)
next
  case True
  show ?thesis
  proof (cases "map_of cart (py_strip (py_lower (item_name request)))")
    case None
    with True show ?thesis by (simp add: remove_not_found)
  next
    case (Some stored)
    then have "py_strip (py_lower (item_name request)) \<in> fst ` set cart"
      by (metis map_of_eq_None_iff option.distinct(1))
    with True Some have "snd (remove_from_cart request cart) =
        (if stored \<le> quantity request
         then AList.delete (py_strip (py_lower (item_name request))) cart
         else AList.update (py_strip (py_lower (item_name request)))
                (stored - quantity request) cart)"
      by (simp add: remove_found)
    with \<open>py_strip (py_lower (item_name request)) \<in> fst ` set cart\<close> show ?thesis
      by (simp add: keys_update keys_delete insert_absorb Diff_subset)
  qed
qed

lemma clear_keys: "snd (clear_cart cart) = []"
  by (simp add: clear_cart_def)


lemma api_step_keys_normalized:
  "keys_normalized cart \<Longrightarrow> keys_normalized (api_step cart call)"
proof (cases call)
  case (CallAdd request)
  assume inv: "keys_normalized cart"
  have "py_strip (py_lower k) = k" if "k \<in> fst ` set (snd (add_to_cart request cart))" for k
  proof -
    from that add_keys_subset [of request cart]
    have "k = py_strip (py_lower (item_name request)) \<or> k \<in> fst ` set cart" by blast
    then show ?thesis using inv by (auto simp: keys_normalized_def api_key_idem)
  qed
  then show ?thesis unfolding CallAdd keys_normalized_def by simp
next
  case (CallRemove request)
  assume inv: "keys_normalized cart"
  have "py_strip (py_lower k) = k" if "k \<in> fst ` set (snd (remove_from_cart request cart))" for k
  proof -
    from that remove_keys_subset [of request cart] have "k \<in> fst ` set cart" by blast
    then show ?thesis using inv by (auto simp: keys_normalized_def)
  qed
  then show ?thesis unfolding CallRemove keys_normalized_def by simp
qed (simp_all add: keys_normalized_def clear_keys)

lemma foldl_keys_normalized:
  "keys_normalized cart \<Longrightarrow> keys_normalized (foldl api_step cart calls)"
  by (induction calls arbitrary: cart) (simp_all add: api_step_keys_normalized)

lemma api_run_keys_normalized: "keys_normalized (api_run calls)"
  unfolding api_run_def by (rule foldl_keys_normalized) (simp add: keys_normalized_def)

subsection \<open>Lookups after an update\<close>

lemma map_of_update_same: "map_of (AList.update k v al) k = Some v"
  by (simp add: update_conv')

lemma map_of_update_other: "k' \<noteq> k \<Longrightarrow> map_of (AList.update k v al) k' = map_of al k'"
  by (simp add: update_conv')

lemma map_of_delete_same: "map_of (AList.delete k al) k = None"
  by (simp add: delete_conv')

lemma grocery_api_add_item_cart:
  "snd (grocery_api_add_item name q cart) =
   snd (add_to_cart \<lparr>item_name = final_name name, quantity = q, action = ''add''\<rparr> cart)"
  by (simp add: grocery_api_add_item_def split: prod.split sum.split)


subsection \<open>The client's remove\<close>

lemma str_int_0: "str_int 0 = ''0''"
  by code_simp

lemma remove_answers:
  "0 < quantity request \<Longrightarrow> \<exists>r cart'. remove_from_cart request cart = (Inr r, cart')"
  by (cases "map_of cart (py_strip (py_lower (item_name request)))")
     (simp_all add: remove_not_found remove_found)

lemma smart_matching_none:
  "find (\<lambda>(k, v). name_matches item_lower (py_strip (py_lower k))) items = None \<Longrightarrow>
   smart_matching item_lower q items cart = None"
  by (induction items) (auto split: if_splits)

lemma smart_matching_some:
  "find (\<lambda>(k, v). name_matches item_lower (py_strip (py_lower k))) items = Some (k, v) \<Longrightarrow>
   remove_from_cart \<lparr>item_name = k, quantity = q, action = ''remove''\<rparr> cart = (Inr r, cart') \<Longrightarrow>
   smart_matching item_lower q items cart = Some (Json r, cart')"
  by (induction items) (auto split: if_splits)

lemma grocery_api_remove_item_first:
  "remove_from_cart \<lparr>item_name = name, quantity = q, action = ''remove''\<rparr> cart = (Inr r, cart')
   \<Longrightarrow> success r \<Longrightarrow> grocery_api_remove_item name q cart = (Json r, cart')"
  by (simp add: grocery_api_remove_item_def)

lemma grocery_api_remove_item_fallback:
  "0 < q \<Longrightarrow> map_of cart (py_strip (py_lower name)) = None \<Longrightarrow>
   grocery_api_remove_item name q cart =
     (case smart_matching (py_strip (py_lower name)) q (cart_items (view_cart cart)) cart of
        Some matched \<Rightarrow> matched
      | None \<Rightarrow> (Json \<lparr>success = False, message = name @ '' is not in your cart'',
                        cart_items = cart, total_items = sum_list (map snd cart)\<rparr>, cart))"
  by (simp add: grocery_api_remove_item_def remove_not_found)

lemma view_cart_items: "cart_items (view_cart cart) = cart"
  by (simp add: view_cart_def)

lemma find_holds: "find P xs = Some x \<Longrightarrow> P x"
  by (induction xs) (auto split: if_splits)

lemma find_key_map_of:
  "find (\<lambda>(k, v). P k) al = Some (k, v) \<Longrightarrow> map_of al k = Some v"
  by (induction al) (auto split: if_splits dest: find_holds)

lemma find_normalized_keys:
  "keys_normalized cart \<Longrightarrow>
   find (\<lambda>(k, v). name_matches item_lower (py_strip (py_lower k))) cart =
   find (\<lambda>(k, v). name_matches item_lower k) cart"
  by (rule find_cong) (auto simp: keys_normalized_def)

lemma str_int_400: "str_int 400 = ''400''"
  by code_simp


lemma validate_cart_item_rejects:
  "q < 1 \<or> py_strip name = [] \<Longrightarrow>
   validate_cart_item q name =
     Inl (ValueError (if q < 1 then ''Quantity must be positive''
                      else ''Item name cannot be empty''))"
  by (auto simp: validate_cart_item_def py_strip_def)


subsection \<open>The count in the answer of clear\<close>

lemma str_nat_nonempty: "str_nat n \<noteq> []"
  by (subst str_nat.simps) simp

lemma char_of_48: "char_of (48::nat) = CHR ''0''"
  by code_simp

lemma char_of_digit_zero: "n < 10 \<Longrightarrow> char_of (48 + n) = CHR ''0'' \<longleftrightarrow> n = (0::nat)"
proof
  assume n: "n < 10" and "char_of (48 + n) = CHR ''0''"
  then have "(of_char (char_of (48 + n)) :: nat) = of_char CHR ''0''" by simp
  with n show "n = 0" by (simp add: of_char_of)
next
  assume "n = 0"
  then show "char_of (48 + n) = CHR ''0''" by (simp add: char_of_48)
qed

lemma str_nat_zero_iff: "str_nat n = ''0'' \<longleftrightarrow> n = 0"
proof (cases "n < 10")
  case True
  then show ?thesis
    by (subst str_nat.simps) (simp add: char_of_digit_zero)
next
  case False
  have "str_nat (n div 10) @ [char_of (48 + n mod 10)] \<noteq> ''0''"
    using str_nat_nonempty [of "n div 10"] by (cases "str_nat (n div 10)") simp_all
  with False show ?thesis
    by (subst str_nat.simps) auto
qed

lemma str_int_zero_iff: "str_int (int n) = ''0'' \<longleftrightarrow> n = 0"
  by (simp add: str_int_def str_nat_zero_iff)

lemma clear_cart_eq:
  "clear_cart cart =
     (\<lparr>success = True,
       message = ''Cart cleared successfully. Removed '' @ str_int (int (length cart))
                 @ '' item types.'',
       cart_items = [], total_items = 0\<rparr>, [])"
  by (simp add: clear_cart_def items_cleared_def)

lemma clear_responses_equal_iff:
  "fst (clear_cart (snd (clear_cart cart))) = fst (clear_cart cart) \<longleftrightarrow> cart = []"
proof -
  have "fst (clear_cart (snd (clear_cart cart))) = fst (clear_cart cart) \<longleftrightarrow>
        str_int (int (length cart)) = ''0''"
    by (simp add: clear_cart_eq str_int_0) metis
  then show ?thesis by (simp add: str_int_zero_iff)
qed


section \<open>Properties of the normaliser and of add\<close>

text \<open>
  C5. The normaliser of the add path lower-cases the trimmed name, keeps it when it
  already ends in \<open>s\<close> and appends \<open>s\<close> otherwise; the result is the key under which
  \<open>grocery_api_add_item\<close> stores the item.
\<close>

theorem final_name_lower_trim_plural:
  "final_name name =
     (if py_endswith_s (py_lower (py_strip name)) then py_lower (py_strip name)
      else py_lower (py_strip name) @ ''s'')
   \<and> (0 < q \<longrightarrow>
        fst ` set (snd (grocery_api_add_item name q cart)) =
          insert (final_name name) (fst ` set cart))"
  by (simp add: final_name_cases py_lower_strip grocery_api_add_item_cart add_keys
        final_name_key [unfolded final_name_cases])

theorem final_name_lower_trim_plural_witness:
  "(0::int) < 3 \<and> final_name ''  Apple '' = ''apples'' \<and> final_name ''Bus'' = ''bus'' \<and>
   fst ` set (snd (grocery_api_add_item ''  Apple '' 3 [])) =
     insert (final_name ''  Apple '') (fst ` set [])"
proof -
  have e: "final_name ''  Apple '' = ''apples''" "final_name ''Bus'' = ''bus''"
    by code_simp+
  show ?thesis
    using final_name_lower_trim_plural [of "''  Apple ''" 3 "[]"] e by simp
qed

text \<open>
  C10. The output of the add-path normaliser ends in \<open>s\<close>, and normalising an output
  again returns it unchanged.
\<close>

theorem final_name_ends_in_s_idempotent:
  "py_endswith_s (final_name name) \<and> final_name (final_name name) = final_name name"
proof
  show ends: "py_endswith_s (final_name name)"
    by (rule final_name_endswith)
  have "py_strip (py_lower (final_name name)) = final_name name"
    by (rule final_name_key)
  with ends show "final_name (final_name name) = final_name name"
    by (subst final_name_cases) simp
qed

theorem final_name_ends_in_s_idempotent_witness:
  "final_name ''Egg'' = ''eggs'' \<and> py_endswith_s (final_name ''Egg'') \<and>
   final_name (final_name ''Egg'') = final_name ''Egg''"
proof -
  have e: "final_name ''Egg'' = ''eggs''" by code_simp
  show ?thesis using final_name_ends_in_s_idempotent [of "''Egg''"] e by simp
qed

text \<open>
  C9. From the empty cart, after any sequence of endpoint calls, every stored key equals
  its own \<open>lower().strip()\<close>. Every step keeps this invariant: add stores under the
  lower-cased, trimmed name, and remove and clear bring in no key.
\<close>

theorem stored_keys_lower_stripped:
  "(\<forall>k \<in> fst ` set (api_run calls). py_strip (py_lower k) = k)
   \<and> (keys_normalized cart \<longrightarrow> keys_normalized (api_step cart call))
   \<and> fst ` set (snd (add_to_cart request cart))
       \<subseteq> insert (py_strip (py_lower (item_name request))) (fst ` set cart)
   \<and> fst ` set (snd (remove_from_cart request cart)) \<subseteq> fst ` set cart
   \<and> fst ` set (snd (clear_cart cart)) \<subseteq> fst ` set cart"
  using api_run_keys_normalized [of calls]
  by (simp add: keys_normalized_def [of "api_run calls"] api_step_keys_normalized
        add_keys_subset remove_keys_subset clear_keys)

theorem stored_keys_lower_stripped_witness:
  "api_run [CallAdd \<lparr>item_name = ''  Eggs '', quantity = 12, action = ''add''\<rparr>,
            CallAdd \<lparr>item_name = ''MILK'', quantity = 1, action = ''add''\<rparr>,
            CallRemove \<lparr>item_name = ''eggs'', quantity = 5, action = ''remove''\<rparr>]
     = [(''eggs'', 7), (''milk'', 1)]
   \<and> py_strip (py_lower ''eggs'') = ''eggs'' \<and> py_strip (py_lower ''milk'') = ''milk''"
proof -
  let ?calls = "[CallAdd \<lparr>item_name = ''  Eggs '', quantity = 12, action = ''add''\<rparr>,
            CallAdd \<lparr>item_name = ''MILK'', quantity = 1, action = ''add''\<rparr>,
            CallRemove \<lparr>item_name = ''eggs'', quantity = 5, action = ''remove''\<rparr>]"
  have e: "api_run ?calls = [(''eggs'', 7), (''milk'', 1)]" by code_simp
  have "\<forall>k \<in> fst ` set (api_run ?calls). py_strip (py_lower k) = k"
    by (rule stored_keys_lower_stripped [of ?calls, THEN conjunct1])
  with e show ?thesis by simp
qed

text \<open>
  C6. Two adds with positive quantities \<open>q1\<close>, \<open>q2\<close> and the same key both succeed; the
  first inserts the key with \<open>q1\<close> when it is absent and adds \<open>q1\<close> to the stored
  quantity when it is present, and after the second the quantity is the one stored before
  plus \<open>q1 + q2\<close>, which is \<open>q1 + q2\<close> for a key that was absent. No other key changes.
\<close>

theorem add_accumulates:
  assumes "0 < q1" and "0 < q2"
    and "py_strip (py_lower n1) = key" and "py_strip (py_lower n2) = key"
  shows "\<exists>r1 c1 r2 c2.
      add_to_cart \<lparr>item_name = n1, quantity = q1, action = a1\<rparr> cart = (Inr r1, c1) \<and>
      success r1 \<and>
      add_to_cart \<lparr>item_name = n2, quantity = q2, action = a2\<rparr> c1 = (Inr r2, c2) \<and>
      success r2 \<and>
      map_of c1 key = Some (case map_of cart key of None \<Rightarrow> q1 | Some v \<Rightarrow> v + q1) \<and>
      map_of c2 key = Some ((case map_of cart key of None \<Rightarrow> 0 | Some v \<Rightarrow> v) + q1 + q2) \<and>
      (map_of cart key = None \<longrightarrow> map_of c2 key = Some (q1 + q2)) \<and>
      (\<forall>k. k \<noteq> key \<longrightarrow> map_of c2 k = map_of cart k)"
  using assms
  by (simp add: add_to_cart_def Let_def map_of_update_same map_of_update_other
        split: option.split)

theorem add_accumulates_witness:
  "(0::int) < 3 \<and> (0::int) < 4 \<and> py_strip (py_lower ''Eggs'') = ''eggs'' \<and>
   py_strip (py_lower '' eggs'') = ''eggs'' \<and>
   map_of (snd (add_to_cart \<lparr>item_name = '' eggs'', quantity = 4, action = ''add''\<rparr>
              (snd (add_to_cart \<lparr>item_name = ''Eggs'', quantity = 3, action = ''add''\<rparr> []))))
     ''eggs'' = Some 7"
proof -
  have h: "(0::int) < 3" "(0::int) < 4" by simp_all
  have k: "py_strip (py_lower ''Eggs'') = ''eggs''" "py_strip (py_lower '' eggs'') = ''eggs''"
    by code_simp+
  from add_accumulates [OF h k, of "''add''" "[]" "''add''"] obtain r1 c1 r2 c2 where
    "add_to_cart \<lparr>item_name = ''Eggs'', quantity = 3, action = ''add''\<rparr> [] = (Inr r1, c1)"
    "add_to_cart \<lparr>item_name = '' eggs'', quantity = 4, action = ''add''\<rparr> c1 = (Inr r2, c2)"
    "map_of c2 ''eggs'' = Some ((case map_of [] ''eggs'' of None \<Rightarrow> 0 | Some v \<Rightarrow> v) + 3 + 4)"
    by blast
  with h k show ?thesis by simp
qed


section \<open>Properties of remove and clear\<close>

text \<open>
  C3. A remove of \<open>q\<close> that finds its key with the quantity \<open>stored\<close> succeeds. When
  \<open>stored \<le> q\<close> the key is deleted and the message reports all \<open>stored\<close> removed;
  otherwise the quantity becomes \<open>stored - q\<close> and the message reports \<open>q\<close> removed. The
  quantity left for the key, 0 for a missing key, is \<open>max 0 (stored - q)\<close>, never
  negative, and when it is 0 the key is not in the next view.
\<close>

theorem remove_quantity_resolution:
  assumes "0 < quantity request"
    and "key = py_strip (py_lower (item_name request))"
    and "map_of cart key = Some stored"
  shows "\<exists>r cart'.
      remove_from_cart request cart = (Inr r, cart') \<and> success r \<and> cart_items r = cart' \<and>
      (stored \<le> quantity request \<longrightarrow>
         cart' = AList.delete key cart \<and> map_of cart' key = None \<and>
         message r = ''Removed all '' @ str_int stored @ '' '' @ item_name request
                     @ '' from cart'') \<and>
      (\<not> stored \<le> quantity request \<longrightarrow>
         cart' = AList.update key (stored - quantity request) cart \<and>
         map_of cart' key = Some (stored - quantity request) \<and>
         message r = ''Removed '' @ str_int (quantity request) @ '' '' @ item_name request
                     @ '' from cart'') \<and>
      (case map_of cart' key of None \<Rightarrow> 0 | Some v \<Rightarrow> v) = max 0 (stored - quantity request) \<and>
      0 \<le> (case map_of cart' key of None \<Rightarrow> 0 | Some v \<Rightarrow> v) \<and>
      (max 0 (stored - quantity request) = 0 \<longrightarrow>
         key \<notin> fst ` set (cart_items (view_cart cart')))"
proof (cases "stored \<le> quantity request")
  case True
  with assms show ?thesis
    by (simp add: remove_found map_of_delete_same view_cart_items keys_delete)
next
  case False
  with assms show ?thesis
    by (simp add: remove_found map_of_update_same view_cart_items)
qed

theorem remove_quantity_resolution_witness:
  "(0::int) < quantity \<lparr>item_name = ''Eggs'', quantity = 5, action = ''remove''\<rparr> \<and>
   ''eggs'' = py_strip (py_lower (item_name
                \<lparr>item_name = ''Eggs'', quantity = 5, action = ''remove''\<rparr>)) \<and>
   map_of [(''eggs'', 12)] ''eggs'' = Some (12::int) \<and>
   snd (remove_from_cart \<lparr>item_name = ''Eggs'', quantity = 5, action = ''remove''\<rparr>
          [(''eggs'', 12)]) = [(''eggs'', 7)] \<and>
   (case map_of (snd (remove_from_cart
                        \<lparr>item_name = ''Eggs'', quantity = 5, action = ''remove''\<rparr>
                        [(''eggs'', 12)])) ''eggs'' of None \<Rightarrow> 0 | Some v \<Rightarrow> v)
     = max 0 (12 - 5)"
proof -
  let ?request = "\<lparr>item_name = ''Eggs'', quantity = 5, action = ''remove''\<rparr>"
  have h1: "(0::int) < quantity ?request" by simp
  have h2: "''eggs'' = py_strip (py_lower (item_name ?request))" by code_simp
  have h3: "map_of [(''eggs'', 12::int)] ''eggs'' = Some 12" by simp
  from remove_quantity_resolution [OF h1 h2 h3] obtain r cart' where
    "remove_from_cart ?request [(''eggs'', 12)] = (Inr r, cart')"
    "cart' = AList.update ''eggs'' (12 - quantity ?request) [(''eggs'', 12)]"
    by auto
  with h1 h2 h3 show ?thesis by simp
qed

text \<open>
  C7, as the code has it. Clear empties the cart and reports in its message the number
  of entries, which is the number of distinct item types. On the empty cart it succeeds
  and reports 0. A second clear leaves the state of the first; its answer is the first
  answer with the count 0 in the message, and equals the first answer exactly when the
  cart was empty at the start.
\<close>

theorem clear_cart_twice:
  "clear_cart cart =
     (\<lparr>success = True,
       message = ''Cart cleared successfully. Removed '' @ str_int (int (length cart))
                 @ '' item types.'',
       cart_items = [], total_items = 0\<rparr>, [])
   \<and> (distinct (map fst cart) \<longrightarrow> items_cleared cart = int (card (fst ` set cart)))
   \<and> clear_cart [] =
     (\<lparr>success = True, message = ''Cart cleared successfully. Removed 0 item types.'',
       cart_items = [], total_items = 0\<rparr>, [])
   \<and> snd (clear_cart (snd (clear_cart cart))) = snd (clear_cart cart)
   \<and> fst (clear_cart (snd (clear_cart cart))) =
       (fst (clear_cart cart))
         \<lparr>message := ''Cart cleared successfully. Removed 0 item types.''\<rparr>
   \<and> (fst (clear_cart (snd (clear_cart cart))) = fst (clear_cart cart) \<longleftrightarrow> cart = [])"
proof -
  have "card (fst ` set cart) = length cart" if "distinct (map fst cart)"
    using distinct_card [OF that] by simp
  then have "distinct (map fst cart) \<longrightarrow> items_cleared cart = int (card (fst ` set cart))"
    by (simp add: items_cleared_def)
  moreover have "clear_cart [] =
     (\<lparr>success = True, message = ''Cart cleared successfully. Removed 0 item types.'',
       cart_items = [], total_items = 0\<rparr>, [])"
    by (simp add: clear_cart_eq str_int_0)
  moreover have "snd (clear_cart (snd (clear_cart cart))) = snd (clear_cart cart)"
    by (simp add: clear_cart_eq)
  moreover have "fst (clear_cart (snd (clear_cart cart))) =
       (fst (clear_cart cart))
         \<lparr>message := ''Cart cleared successfully. Removed 0 item types.''\<rparr>"
    by (simp add: clear_cart_eq str_int_0)
  ultimately show ?thesis
    using clear_cart_eq [of cart] clear_responses_equal_iff [of cart] by blast
qed

theorem clear_cart_twice_witness:
  "distinct (map fst [(''eggs'', 7::int), (''milk'', 1)]) \<and>
   items_cleared [(''eggs'', 7), (''milk'', 1)] =
     int (card (fst ` set [(''eggs'', 7::int), (''milk'', 1)])) \<and>
   clear_cart [(''eggs'', 7), (''milk'', 1)] =
     (\<lparr>success = True, message = ''Cart cleared successfully. Removed 2 item types.'',
       cart_items = [], total_items = 0\<rparr>, []) \<and>
   clear_cart (snd (clear_cart [(''eggs'', 7), (''milk'', 1)])) =
     (\<lparr>success = True, message = ''Cart cleared successfully. Removed 0 item types.'',
       cart_items = [], total_items = 0\<rparr>, [])"
proof -
  let ?cart = "[(''eggs'', 7::int), (''milk'', 1)]"
  have d: "distinct (map fst ?cart)" by simp
  have e: "str_int (int (length ?cart)) = ''2''" by code_simp
  from clear_cart_twice [of ?cart] d e show ?thesis
    by (simp add: prod_eq_iff)
qed

text \<open>
  C7 as stated fails: on a cart with one entry the first clear reports 1 item type removed
  and the second reports 0, so the second answer is not the answer of a single clear.
\<close>

theorem clear_second_response_counterexample:
  "fst (clear_cart [(''eggs'', 7)]) =
     \<lparr>success = True, message = ''Cart cleared successfully. Removed 1 item types.'',
      cart_items = [], total_items = 0\<rparr> \<and>
   fst (clear_cart (snd (clear_cart [(''eggs'', 7)]))) =
     \<lparr>success = True, message = ''Cart cleared successfully. Removed 0 item types.'',
      cart_items = [], total_items = 0\<rparr> \<and>
   fst (clear_cart (snd (clear_cart [(''eggs'', 7)]))) \<noteq> fst (clear_cart [(''eggs'', 7)])"
  by code_simp

text \<open>
  C8. The remove endpoint by itself succeeds exactly when the quantity is positive and the
  lower-cased, trimmed item name is a stored key. For \<open>banana\<close> against the stored key
  \<open>bananas\<close> it reports not-found, while the client, after that answer, reads the view,
  takes the first matching entry and calls the endpoint again with the stored name.
\<close>

theorem remove_endpoint_exact_only:
  "((\<exists>r. fst (remove_from_cart request cart) = Inr r \<and> success r) \<longleftrightarrow>
      0 < quantity request \<and> py_strip (py_lower (item_name request)) \<in> fst ` set cart)
   \<and> remove_from_cart \<lparr>item_name = ''banana'', quantity = 1, action = ''remove''\<rparr>
         [(''bananas'', 2)] =
       (Inr \<lparr>success = False, message = ''banana is not in your cart'',
             cart_items = [(''bananas'', 2)], total_items = 2\<rparr>, [(''bananas'', 2)])
   \<and> grocery_api_remove_item ''banana'' 1 [(''bananas'', 2)] =
       (Json \<lparr>success = True, message = ''Removed 1 bananas from cart'',
              cart_items = [(''bananas'', 1)], total_items = 1\<rparr>, [(''bananas'', 1)])
   \<and> (0 < q \<longrightarrow> map_of cart (py_strip (py_lower name)) = None \<longrightarrow>
        find (\<lambda>(k, v). name_matches (py_strip (py_lower name)) (py_strip (py_lower k)))
          (cart_items (view_cart cart)) = Some (k, v) \<longrightarrow>
        (\<exists>r cart'.
           remove_from_cart \<lparr>item_name = k, quantity = q, action = ''remove''\<rparr> cart
             = (Inr r, cart') \<and>
           grocery_api_remove_item name q cart = (Json r, cart')))"
proof -
  have banana1: "remove_from_cart \<lparr>item_name = ''banana'', quantity = 1, action = ''remove''\<rparr>
         [(''bananas'', 2)] =
       (Inr \<lparr>success = False, message = ''banana is not in your cart'',
             cart_items = [(''bananas'', 2)], total_items = 2\<rparr>, [(''bananas'', 2)])"
    by code_simp
  have banana2: "grocery_api_remove_item ''banana'' 1 [(''bananas'', 2)] =
       (Json \<lparr>success = True, message = ''Removed 1 bananas from cart'',
              cart_items = [(''bananas'', 1)], total_items = 1\<rparr>, [(''bananas'', 1)])"
    by code_simp
  have retry: "\<exists>r cart'.
           remove_from_cart \<lparr>item_name = k, quantity = q, action = ''remove''\<rparr> cart
             = (Inr r, cart') \<and>
           grocery_api_remove_item name q cart = (Json r, cart')"
    if q: "0 < q" and none: "map_of cart (py_strip (py_lower name)) = None"
      and f: "find (\<lambda>(k, v). name_matches (py_strip (py_lower name)) (py_strip (py_lower k)))
          (cart_items (view_cart cart)) = Some (k, v)"
  proof -
    from q obtain r cart' where
      r: "remove_from_cart \<lparr>item_name = k, quantity = q, action = ''remove''\<rparr> cart
            = (Inr r, cart')"
      using remove_answers [of "\<lparr>item_name = k, quantity = q, action = ''remove''\<rparr>" cart]
      by auto
    from f r have "smart_matching (py_strip (py_lower name)) q (cart_items (view_cart cart)) cart
        = Some (Json r, cart')"
      by (rule smart_matching_some)
    with q none r show ?thesis by (simp add: grocery_api_remove_item_fallback)
  qed
  from banana1 banana2 retry show ?thesis
    using remove_success_iff [of request cart] by blast
qed

theorem remove_endpoint_exact_only_witness:
  "fst (remove_from_cart \<lparr>item_name = '' Bananas'', quantity = 1, action = ''remove''\<rparr>
          [(''bananas'', 2)]) =
     Inr \<lparr>success = True, message = ''Removed 1  Bananas from cart'',
          cart_items = [(''bananas'', 1)], total_items = 1\<rparr>
   \<and> (0::int) < quantity \<lparr>item_name = '' Bananas'', quantity = 1, action = ''remove''\<rparr>
   \<and> py_strip (py_lower (item_name \<lparr>item_name = '' Bananas'', quantity = 1, action = ''remove''\<rparr>))
       \<in> fst ` set [(''bananas'', 2::int)]"
proof -
  let ?request = "\<lparr>item_name = '' Bananas'', quantity = 1, action = ''remove''\<rparr>"
  have e: "fst (remove_from_cart ?request [(''bananas'', 2)]) =
     Inr \<lparr>success = True, message = ''Removed 1  Bananas from cart'',
          cart_items = [(''bananas'', 1)], total_items = 1\<rparr>"
    by code_simp
  then have "\<exists>r. fst (remove_from_cart ?request [(''bananas'', 2)]) = Inr r \<and> success r"
    by simp
  with remove_endpoint_exact_only [of ?request "[(''bananas'', 2)]", THEN conjunct1]
  have "0 < quantity ?request \<and>
        py_strip (py_lower (item_name ?request)) \<in> fst ` set [(''bananas'', 2::int)]"
    by (rule iffD1)
  with e show ?thesis by simp
qed

section \<open>Properties of the lookup on remove\<close>

text \<open>
  C2, as the code has it. The first step of a remove looks the lower-cased, trimmed item
  name up among the stored keys, with no pluralisation: when that key is stored the first
  answer succeeds and is returned, and only when it is not stored does the client go on
  to the smart matching over the view.
\<close>

theorem first_step_normalized_lookup:
  assumes "0 < q"
  shows "(map_of cart (py_strip (py_lower name)) \<noteq> None \<longrightarrow>
      (\<exists>r cart'.
         remove_from_cart \<lparr>item_name = name, quantity = q, action = ''remove''\<rparr> cart
           = (Inr r, cart') \<and>
         success r \<and> grocery_api_remove_item name q cart = (Json r, cart')))
   \<and> (map_of cart (py_strip (py_lower name)) = None \<longrightarrow>
        remove_from_cart \<lparr>item_name = name, quantity = q, action = ''remove''\<rparr> cart =
          (Inr \<lparr>success = False, message = name @ '' is not in your cart'',
                cart_items = cart, total_items = sum_list (map snd cart)\<rparr>, cart) \<and>
        grocery_api_remove_item name q cart =
          (case smart_matching (py_strip (py_lower name)) q cart cart of
             Some matched \<Rightarrow> matched
           | None \<Rightarrow> (Json \<lparr>success = False, message = name @ '' is not in your cart'',
                             cart_items = cart, total_items = sum_list (map snd cart)\<rparr>,
                       cart)))"
proof (cases "map_of cart (py_strip (py_lower name))")
  case None
  with assms show ?thesis
    by (simp add: grocery_api_remove_item_fallback view_cart_items remove_not_found)
next
  case (Some stored)
  let ?request = "\<lparr>item_name = name, quantity = q, action = ''remove''\<rparr>"
  from Some have "py_strip (py_lower name) \<in> fst ` set cart"
    by (metis map_of_eq_None_iff option.distinct(1))
  with assms obtain r where r: "fst (remove_from_cart ?request cart) = Inr r" "success r"
    using remove_success_iff [of ?request cart] by auto
  then have "remove_from_cart ?request cart = (Inr r, snd (remove_from_cart ?request cart))"
    by (simp add: prod_eq_iff)
  from this r(2) have "grocery_api_remove_item name q cart =
      (Json r, snd (remove_from_cart ?request cart))"
    by (rule grocery_api_remove_item_first)
  with r Some show ?thesis by (simp add: prod_eq_iff)
qed

theorem first_step_normalized_lookup_witness:
  "(0::int) < 1 \<and> map_of [(''milk'', 2::int)] (py_strip (py_lower ''MILK '')) \<noteq> None \<and>
   result_success (fst (grocery_api_remove_item ''MILK '' 1 [(''milk'', 2)])) \<and>
   snd (grocery_api_remove_item ''MILK '' 1 [(''milk'', 2)]) =
     snd (remove_from_cart \<lparr>item_name = ''MILK '', quantity = 1, action = ''remove''\<rparr>
            [(''milk'', 2)])"
proof -
  have h1: "(0::int) < 1" by simp
  have h2: "map_of [(''milk'', 2::int)] (py_strip (py_lower ''MILK '')) \<noteq> None" by code_simp
  from first_step_normalized_lookup [OF h1, of "[(''milk'', 2)]" "''MILK ''"] h2
  obtain r cart' where
    "remove_from_cart \<lparr>item_name = ''MILK '', quantity = 1, action = ''remove''\<rparr>
       [(''milk'', 2)] = (Inr r, cart')"
    "success r" "grocery_api_remove_item ''MILK '' 1 [(''milk'', 2)] = (Json r, cart')"
    by blast
  with h1 h2 show ?thesis by simp
qed

text \<open>
  C2 as stated fails: \<open>Eggs\<close> is no key of the cart, so a verbatim lookup finds nothing,
  yet the first call removes the seven \<open>eggs\<close> and no matching is tried.
\<close>

theorem verbatim_lookup_counterexample:
  "map_of [(''eggs'', 7::int)] ''Eggs'' = None \<and>
   remove_from_cart \<lparr>item_name = ''Eggs'', quantity = 7, action = ''remove''\<rparr> [(''eggs'', 7)] =
     (Inr \<lparr>success = True, message = ''Removed all 7 Eggs from cart'',
           cart_items = [], total_items = 0\<rparr>, []) \<and>
   grocery_api_remove_item ''Eggs'' 7 [(''eggs'', 7)] =
     (Json \<lparr>success = True, message = ''Removed all 7 Eggs from cart'',
            cart_items = [], total_items = 0\<rparr>, [])"
  by code_simp

text \<open>
  C1, as the code has it. When the quantity is positive, the stored keys are the
  lower-cased, trimmed names that add stores, and the lower-cased, trimmed raw name is not
  a stored key, the client takes the first entry of the cart, in its order, whose key
  matches that name by one of the four patterns of \<open>name_matches\<close>, and the removal is
  resolved on that key. When no key matches, the answer is the not-found answer of the
  first call, with \<open>success = False\<close>, and the cart is unchanged.
\<close>

theorem fuzzy_fallback_first_match:
  assumes "0 < q" and "keys_normalized cart"
    and "map_of cart (py_strip (py_lower raw)) = None"
  shows "case find (\<lambda>(k, v). name_matches (py_strip (py_lower raw)) k) cart of
      None \<Rightarrow>
        grocery_api_remove_item raw q cart =
          (Json \<lparr>success = False, message = raw @ '' is not in your cart'',
                 cart_items = cart, total_items = sum_list (map snd cart)\<rparr>, cart)
    | Some (k, stored) \<Rightarrow>
        map_of cart k = Some stored \<and>
        grocery_api_remove_item raw q cart =
          (if stored \<le> q
           then (Json \<lparr>success = True,
                       message = ''Removed all '' @ str_int stored @ '' '' @ k @ '' from cart'',
                       cart_items = AList.delete k cart,
                       total_items = sum_list (map snd (AList.delete k cart))\<rparr>,
                 AList.delete k cart)
           else (Json \<lparr>success = True,
                       message = ''Removed '' @ str_int q @ '' '' @ k @ '' from cart'',
                       cart_items = AList.update k (stored - q) cart,
                       total_items = sum_list (map snd (AList.update k (stored - q) cart))\<rparr>,
                 AList.update k (stored - q) cart))"
proof (cases "find (\<lambda>(k, v). name_matches (py_strip (py_lower raw)) k) cart")
  case None
  with assms(2) have "find (\<lambda>(k, v). name_matches (py_strip (py_lower raw))
      (py_strip (py_lower k))) cart = None"
    by (simp add: find_normalized_keys)
  then have "smart_matching (py_strip (py_lower raw)) q cart cart = None"
    by (rule smart_matching_none)
  with assms None show ?thesis
    by (simp add: grocery_api_remove_item_fallback view_cart_items)
next
  case (Some entry)
  obtain k stored where entry: "entry = (k, stored)" by (cases entry)
  let ?request = "\<lparr>item_name = k, quantity = q, action = ''remove''\<rparr>"
  from Some entry have found: "find (\<lambda>(k, v). name_matches (py_strip (py_lower raw)) k) cart
      = Some (k, stored)" by simp
  then have m: "map_of cart k = Some stored" by (rule find_key_map_of)
  then have "k \<in> fst ` set cart" by (metis map_of_eq_None_iff option.distinct(1))
  with assms(2) have key: "py_strip (py_lower k) = k" unfolding keys_normalized_def by blast
  from assms(1) obtain r cart' where r: "remove_from_cart ?request cart = (Inr r, cart')"
    using remove_answers [of ?request cart] by auto
  from found assms(2) have "find (\<lambda>(k, v). name_matches (py_strip (py_lower raw))
      (py_strip (py_lower k))) cart = Some (k, stored)"
    by (simp add: find_normalized_keys)
  from this r have "smart_matching (py_strip (py_lower raw)) q cart cart = Some (Json r, cart')"
    by (rule smart_matching_some)
  with assms have g: "grocery_api_remove_item raw q cart = (Json r, cart')"
    by (simp add: grocery_api_remove_item_fallback view_cart_items)
  from assms(1) m key have "remove_from_cart ?request cart =
     (if stored \<le> q
      then (Inr \<lparr>success = True,
                 message = ''Removed all '' @ str_int stored @ '' '' @ k @ '' from cart'',
                 cart_items = AList.delete k cart,
                 total_items = sum_list (map snd (AList.delete k cart))\<rparr>,
            AList.delete k cart)
      else (Inr \<lparr>success = True,
                 message = ''Removed '' @ str_int q @ '' '' @ k @ '' from cart'',
                 cart_items = AList.update k (stored - q) cart,
                 total_items = sum_list (map snd (AList.update k (stored - q) cart))\<rparr>,
            AList.update k (stored - q) cart))"
    using remove_found [of ?request cart stored] by simp
  with r g m found show ?thesis by (auto split: if_splits)
qed

theorem fuzzy_fallback_first_match_witness:
  "(0::int) < 1 \<and> keys_normalized [(''apples'', 3), (''bananas'', 2)] \<and>
   map_of [(''apples'', 3), (''bananas'', 2::int)] (py_strip (py_lower ''Banana'')) = None \<and>
   grocery_api_remove_item ''Banana'' 1 [(''apples'', 3), (''bananas'', 2)] =
     (Json \<lparr>success = True, message = ''Removed 1 bananas from cart'',
            cart_items = [(''apples'', 3), (''bananas'', 1)], total_items = 4\<rparr>,
      [(''apples'', 3), (''bananas'', 1)])"
proof -
  let ?cart = "[(''apples'', 3), (''bananas'', 2::int)]"
  have h1: "(0::int) < 1" by simp
  have h2: "keys_normalized ?cart" by code_simp
  have h3: "map_of ?cart (py_strip (py_lower ''Banana'')) = None" by code_simp
  have f: "find (\<lambda>(k, v). name_matches (py_strip (py_lower ''Banana'')) k) ?cart
      = Some (''bananas'', 2)" by code_simp
  have e: "str_int 1 = ''1''" by code_simp
  from fuzzy_fallback_first_match [OF h1 h2 h3] h1 h2 h3 show ?thesis
    unfolding f by (simp add: e)
qed

text \<open>
  C1 as stated fails: the raw name \<open>Eggs\<close> equals no stored key, and the first key that
  satisfies one of the patterns is \<open>eggss\<close> (raw name plus \<open>s\<close>), but the quantity is
  taken from \<open>eggs\<close>, which the endpoint finds by lower-casing.
\<close>

theorem fuzzy_fallback_counterexample:
  "map_of [(''eggss'', 1::int), (''eggs'', 2)] ''Eggs'' = None \<and>
   keys_normalized [(''eggss'', 1), (''eggs'', 2)] \<and>
   name_matches (py_strip (py_lower ''Eggs'')) ''eggss'' \<and>
   grocery_api_remove_item ''Eggs'' 1 [(''eggss'', 1), (''eggs'', 2)] =
     (Json \<lparr>success = True, message = ''Removed 1 Eggs from cart'',
            cart_items = [(''eggss'', 1), (''eggs'', 1)], total_items = 2\<rparr>,
      [(''eggss'', 1), (''eggs'', 1)])"
  by code_simp


section \<open>Rejected requests\<close>

text \<open>
  C4, as the code has it. A quantity of 0 or less is rejected by both endpoints with
  status 400 and by both client functions with a failure result; the agent's tools reject
  a quantity below 1 and a name that is empty after trimming before any request is sent.
  The cart is unchanged in each case. The endpoints do not check the item name.
\<close>

theorem invalid_requests_rejected:
  "(quantity request \<le> 0 \<longrightarrow>
      add_to_cart request cart =
        (Inl (HTTPException 400 ''Quantity must be positive''), cart) \<and>
      remove_from_cart request cart =
        (Inl (HTTPException 400 ''Quantity must be positive''), cart) \<and>
      grocery_api_add_item name (quantity request) cart =
        (ErrorResult (''Failed to add '' @ name @ '' to cart. Status: 400''), cart) \<and>
      grocery_api_remove_item name (quantity request) cart =
        (ErrorResult (''Failed to remove '' @ name @ '' from cart. Status: 400''), cart))
   \<and> (q < 1 \<or> py_strip name = [] \<longrightarrow>
        GroceryAgent_add_to_cart q name cart =
          (''Sorry, there was an error processing your request: ''
           @ (if q < 1 then ''Quantity must be positive'' else ''Item name cannot be empty''),
           cart) \<and>
        GroceryAgent_remove_from_cart q name cart =
          (''Sorry, there was an error processing your request: ''
           @ (if q < 1 then ''Quantity must be positive'' else ''Item name cannot be empty''),
           cart))"
proof -
  have api: "add_to_cart r cart = (Inl (HTTPException 400 ''Quantity must be positive''), cart)"
    "remove_from_cart r cart = (Inl (HTTPException 400 ''Quantity must be positive''), cart)"
    if "quantity r \<le> 0" for r
    using that by (simp_all add: add_rejected remove_rejected)
  have client: "grocery_api_add_item name (quantity request) cart =
        (ErrorResult (''Failed to add '' @ name @ '' to cart. Status: 400''), cart)"
      "grocery_api_remove_item name (quantity request) cart =
        (ErrorResult (''Failed to remove '' @ name @ '' from cart. Status: 400''), cart)"
    if "quantity request \<le> 0"
    using that
    by (simp_all add: grocery_api_add_item_def grocery_api_remove_item_def api str_int_400)
  have tools: "GroceryAgent_add_to_cart q name cart =
          (''Sorry, there was an error processing your request: ''
           @ (if q < 1 then ''Quantity must be positive'' else ''Item name cannot be empty''),
           cart)"
       "GroceryAgent_remove_from_cart q name cart =
          (''Sorry, there was an error processing your request: ''
           @ (if q < 1 then ''Quantity must be positive'' else ''Item name cannot be empty''),
           cart)"
    if "q < 1 \<or> py_strip name = []"
    using validate_cart_item_rejects [OF that]
    by (simp_all add: GroceryAgent_add_to_cart_def GroceryAgent_remove_from_cart_def)
  from api client tools show ?thesis by blast
qed

theorem invalid_requests_rejected_witness:
  "quantity \<lparr>item_name = ''kiwi'', quantity = 0, action = ''add''\<rparr> \<le> 0 \<and>
   ((1::int) < 1 \<or> py_strip ''  '' = []) \<and>
   add_to_cart \<lparr>item_name = ''kiwi'', quantity = 0, action = ''add''\<rparr> [(''eggs'', 7)] =
     (Inl (HTTPException 400 ''Quantity must be positive''), [(''eggs'', 7)]) \<and>
   GroceryAgent_add_to_cart 1 ''  '' [(''eggs'', 7)] =
     (''Sorry, there was an error processing your request: Item name cannot be empty'',
      [(''eggs'', 7)])"
proof -
  let ?request = "\<lparr>item_name = ''kiwi'', quantity = 0, action = ''add''\<rparr>"
  have h1: "quantity ?request \<le> 0" by simp
  have h2: "(1::int) < 1 \<or> py_strip ''  '' = []" by code_simp
  from invalid_requests_rejected [of ?request "[(''eggs'', 7)]" "''  ''" 1] h1 h2
  show ?thesis by simp
qed

text \<open>
  C4 as stated fails: the add endpoint accepts a name that is empty after trimming and
  stores the empty key.
\<close>

theorem empty_name_counterexample:
  "py_strip ''  '' = [] \<and>
   add_to_cart \<lparr>item_name = ''  '', quantity = 1, action = ''add''\<rparr> [] =
     (Inr \<lparr>success = True, message = ''Successfully added 1    to cart'',
           cart_items = [([], 1)], total_items = 1\<rparr>, [([], 1)])"
  by code_simp

end
